theory Spec2Isabelle
  imports Complex_Main "HOL-Library.List_Lexorder" "HOL-Library.Char_ord"
begin

section \<open>Data model\<close>

text \<open>
  The analysis of pyDynamo works on a time series of traced dendrite trees. A tree has a
  soma (\<open>rootPoint\<close>) and a flat list of its branches; a point owns the branches that come
  off it, a branch owns its points and knows the point it grows from.

  Lengths are Python floats in the source. They are modelled as reals; the only float
  effects kept are the ones the analysis relies on: NaN cells and division by zero.
\<close>

type_synonym location = "real \<times> real \<times> real"

text \<open>
  \<open>parentPoint\<close> holds the data of the parent point (identity, location, annotation) as the
  analysis reads it; the \<open>children\<close> field of that copy is not read through this link.
\<close>

datatype point = Point (pid: string) (location: location) (annotation: string)
                       (children: "branch list")
     and branch = Branch (bid: string) (parentPoint: "point option") (points: "point list")

record tree =
  rootPoint :: "point option"
  branches :: "branch list"

datatype error = ValueError | IndexError | AttributeError | RecursionError

text \<open>
  Modelled from the spec: the enum \<open>FiloType\<close> (\<open>model.FiloType\<close>) is not part of the
  sources. The spec gives its members and their order:
  ABSENT < TERMINAL < INTERSTITIAL < BRANCH_WITH_TERMINAL < BRANCH_WITH_INTERSTITIAL
  < BRANCH_ONLY. \<open>rank\<close> is the position in that order; the comparisons of the source
  (\<open>filoTypes > FiloType.ABSENT\<close> and so on) compare ranks.
\<close>

datatype FiloType = ABSENT | TERMINAL | INTERSTITIAL | BRANCH_WITH_TERMINAL
  | BRANCH_WITH_INTERSTITIAL | BRANCH_ONLY

fun rank :: "FiloType \<Rightarrow> nat" where
  "rank ABSENT = 0"
| "rank TERMINAL = 1"
| "rank INTERSTITIAL = 2"
| "rank BRANCH_WITH_TERMINAL = 3"
| "rank BRANCH_WITH_INTERSTITIAL = 4"
| "rank BRANCH_ONLY = 5"

section \<open>Helpers of \<open>util\<close> and of the tree model\<close>

text \<open>\<open>util.locationMinus\<close> and \<open>util.deltaSz\<close>.\<close>

fun locationMinus :: "location \<Rightarrow> location \<Rightarrow> location" where
  "locationMinus (ax, ay, az) (bx, by, bz) = (ax - bx, ay - by, az - bz)"

definition deltaSz :: "location \<Rightarrow> location \<Rightarrow> real" where
  "deltaSz p1 p2 = (case locationMinus p1 p2 of (x, y, z) \<Rightarrow> sqrt (x * x + y * y + z * z))"

text \<open>\<open>util.emptyArrayArray\<close> and \<open>util.emptyArrayMatrix\<close>.\<close>

definition emptyArrayArray :: "nat \<Rightarrow> nat list list" where
  "emptyArrayArray c = replicate c []"

definition emptyArrayMatrix :: "nat \<Rightarrow> nat \<Rightarrow> nat list list list" where
  "emptyArrayMatrix r c = replicate r (emptyArrayArray c)"

text \<open>\<open>Tree.getBranchByID\<close>: the first branch of the tree's list with the given id.\<close>

fun findBranch :: "branch list \<Rightarrow> string \<Rightarrow> branch option" where
  "findBranch [] branchID = None"
| "findBranch (b # bs) branchID = (if bid b = branchID then Some b else findBranch bs branchID)"

definition getBranchByID :: "tree \<Rightarrow> string \<Rightarrow> branch option" where
  "getBranchByID t branchID = findBranch (branches t) branchID"

text \<open>Python's \<open>list.index\<close>: the position of the first equal element, \<open>ValueError\<close> if none.\<close>

fun indexFrom :: "nat \<Rightarrow> 'a list \<Rightarrow> 'a \<Rightarrow> error + nat" where
  "indexFrom i [] x = Inl ValueError"
| "indexFrom i (y # ys) x = (if y = x then Inr i else indexFrom (Suc i) ys x)"

definition listIndex :: "'a list \<Rightarrow> 'a \<Rightarrow> error + nat" where
  "listIndex xs x = indexFrom 0 xs x"

text \<open>Python's \<open>str.find(label) != -1\<close>: \<open>label\<close> occurs as a contiguous substring.\<close>

fun startsWith :: "string \<Rightarrow> string \<Rightarrow> bool" where
  "startsWith s [] = True"
| "startsWith [] (c # cs) = False"
| "startsWith (d # ds) (c # cs) = (d = c \<and> startsWith ds cs)"

fun containsLabel :: "string \<Rightarrow> string \<Rightarrow> bool" where
  "containsLabel [] label = (label = [])"
| "containsLabel (d # ds) label = (startsWith (d # ds) label \<or> containsLabel ds label)"

text \<open>
  \<open>_lastPointWithLabel\<close> of \<open>motility.py\<close> (\<open>util.lastPointWithLabelIdx\<close> in the newer
  module): the index of the last point whose annotation contains the label, or -1.
\<close>

fun lastPointWithLabelFrom :: "int \<Rightarrow> int \<Rightarrow> point list \<Rightarrow> string \<Rightarrow> int" where
  "lastPointWithLabelFrom i lastPointIdx [] label = lastPointIdx"
| "lastPointWithLabelFrom i lastPointIdx (p # ps) label =
     lastPointWithLabelFrom (i + 1)
       (if containsLabel (annotation p) label then i else lastPointIdx) ps label"

definition lastPointWithLabel :: "point list \<Rightarrow> string \<Rightarrow> int" where
  "lastPointWithLabel ps label = lastPointWithLabelFrom 0 (-1) ps label"

subsection \<open>The branch length engine\<close>

text \<open>
  Modelled from the spec: the classes \<open>Branch\<close> and \<open>Point\<close> (\<open>model/tree/branch.py\<close>,
  \<open>point.py\<close>) are not part of the sources, so the methods \<open>isEmpty\<close>, \<open>hasChildren\<close>,
  \<open>isAxon\<close>, \<open>isBasal\<close>, \<open>worldLengths\<close>, \<open>cumulativeWorldLengths\<close>, \<open>isFilo\<close> and
  \<open>indexInParent\<close> follow sections 3, 4.1, 4.2 and 4.4 of the spec:
  \<^item> a branch with zero points is empty;
  \<^item> a branch has children when one of its own points owns a branch;
  \<^item> the axon and basal tests look for the label in the annotations of the points, parent
    point included;
  \<^item> the total length is the sum of the distances between consecutive points, the parent
    point being the first; the cumulative length is given for each own point;
    \<open>lengthToLastBranch\<close> is the cumulative length at the last own point that has a child
    branch (0 when there is none);
  \<^item> a branch is a filopodium iff it is not empty, has no children and its total length is
    at most the threshold; the test also returns the length;
  \<^item> \<open>indexInParent\<close> is the per-snapshot branch index: the position of the branch in the
    branch list of its tree.
  Locations are taken to be in world units already (the unit conversion is applied
  upstream).
\<close>

definition isEmpty :: "branch \<Rightarrow> bool" where
  "isEmpty b = (points b = [])"

definition hasChildren :: "branch \<Rightarrow> bool" where
  "hasChildren b = list_ex (\<lambda>p. children p \<noteq> []) (points b)"

definition pointsWithParent :: "branch \<Rightarrow> point list" where
  "pointsWithParent b =
     (case parentPoint b of None \<Rightarrow> points b | Some pp \<Rightarrow> pp # points b)"

definition isAxon :: "branch \<Rightarrow> bool" where
  "isAxon b = (lastPointWithLabel (pointsWithParent b) ''axon'' \<ge> 0)"

definition isBasal :: "branch \<Rightarrow> bool" where
  "isBasal b = (lastPointWithLabel (pointsWithParent b) ''basal'' \<ge> 0)"

fun cumulativeFrom :: "location \<Rightarrow> real \<Rightarrow> point list \<Rightarrow> real list" where
  "cumulativeFrom prev acc [] = []"
| "cumulativeFrom prev acc (p # ps) =
     (acc + deltaSz prev (location p)) #
       cumulativeFrom (location p) (acc + deltaSz prev (location p)) ps"

definition cumulativeWorldLengths :: "branch \<Rightarrow> real list" where
  "cumulativeWorldLengths b =
     (case parentPoint b of
        Some pp \<Rightarrow> cumulativeFrom (location pp) 0 (points b)
      | None \<Rightarrow> (case points b of [] \<Rightarrow> [] | p # ps \<Rightarrow> cumulativeFrom (location p) 0 (p # ps)))"

fun lengthToLastBranchFrom :: "real \<Rightarrow> (point \<times> real) list \<Rightarrow> real" where
  "lengthToLastBranchFrom acc [] = acc"
| "lengthToLastBranchFrom acc ((p, c) # rest) =
     lengthToLastBranchFrom (if children p \<noteq> [] then c else acc) rest"

definition worldLengths :: "branch \<Rightarrow> real \<times> real" where
  "worldLengths b =
     (let cumulativeLengths = cumulativeWorldLengths b
      in (if cumulativeLengths = [] then 0 else last cumulativeLengths,
          lengthToLastBranchFrom 0 (zip (points b) cumulativeLengths)))"

definition isFilo :: "branch \<Rightarrow> real \<Rightarrow> bool \<times> real" where
  "isFilo b maxLength =
     (let totalLength = fst (worldLengths b)
      in (\<not> isEmpty b \<and> \<not> hasChildren b \<and> totalLength \<le> maxLength, totalLength))"

definition indexInParent :: "tree \<Rightarrow> branch \<Rightarrow> error + nat" where
  "indexInParent t b = listIndex (map bid (branches t)) (bid b)"

text \<open>
  Modelled from the spec: \<open>util.sortedBranchIDList\<close> is not part of the sources. Section 3
  of the spec: a sorted, de-duplicated list of all branch ids seen across every snapshot.
\<close>

definition sortedBranchIDList :: "tree list \<Rightarrow> string list" where
  "sortedBranchIDList trees = sort (remdups (concat (map (\<lambda>t. map bid (branches t)) trees)))"

section \<open>Matrices\<close>

text \<open>
  A numpy matrix is a list of rows. Reading or writing outside the shape raises
  \<open>IndexError\<close>. A matrix without rows has no column count in this representation, so
  two such matrices always have the same shape here.
\<close>

definition getCell :: "'a list list \<Rightarrow> nat \<Rightarrow> nat \<Rightarrow> error + 'a" where
  "getCell m i j =
     (if i < length m \<and> j < length (m ! i) then Inr (m ! i ! j) else Inl IndexError)"

definition setCell :: "'a list list \<Rightarrow> nat \<Rightarrow> nat \<Rightarrow> 'a \<Rightarrow> error + 'a list list" where
  "setCell m i j v =
     (if i < length m \<and> j < length (m ! i) then Inr (m[i := (m ! i)[j := v]])
      else Inl IndexError)"

text \<open>An elementwise operation on two matrices of the same shape.\<close>

definition cellwise :: "('a \<Rightarrow> 'b \<Rightarrow> 'c) \<Rightarrow> 'a list list \<Rightarrow> 'b list list \<Rightarrow> 'c list list" where
  "cellwise f A B = map (\<lambda>(ra, rb). map (\<lambda>(a, b). f a b) (zip ra rb)) (zip A B)"

definition sameShape :: "'a list list \<Rightarrow> 'b list list \<Rightarrow> bool" where
  "sameShape A B = (map length A = map length B)"

text \<open>Running a fallible step for every element of a list, left to right.\<close>

fun forEach :: "('a \<Rightarrow> 's \<Rightarrow> error + 's) \<Rightarrow> 'a list \<Rightarrow> 's \<Rightarrow> error + 's" where
  "forEach f [] s = Inr s"
| "forEach f (x # xs) s = (case f x s of Inl e \<Rightarrow> Inl e | Inr s' \<Rightarrow> forEach f xs s')"

fun mapE :: "('a \<Rightarrow> error + 'b) \<Rightarrow> 'a list \<Rightarrow> error + 'b list" where
  "mapE f [] = Inr []"
| "mapE f (x # xs) =
     (case f x of Inl e \<Rightarrow> Inl e
      | Inr y \<Rightarrow> (case mapE f xs of Inl e \<Rightarrow> Inl e | Inr ys \<Rightarrow> Inr (y # ys)))"

section \<open>The branch classifier (\<open>addedSubtractedTransitioned.py\<close>)\<close>

text \<open>
  The two accumulators the classifier writes to: \<open>filoTypes\<close> and \<open>masterNodes\<close>, both
  indexed by snapshot and by branch index.
\<close>

record astate =
  filoTypes :: "FiloType list list"
  masterNodes :: "nat list list list"

definition setFiloType :: "astate \<Rightarrow> nat \<Rightarrow> nat \<Rightarrow> FiloType \<Rightarrow> error + astate" where
  "setFiloType st treeIdx branchIdx v =
     (case setCell (filoTypes st) treeIdx branchIdx v of
        Inl e \<Rightarrow> Inl e
      | Inr m \<Rightarrow> Inr (st\<lparr>filoTypes := m\<rparr>))"

definition setMasterNodes :: "astate \<Rightarrow> nat \<Rightarrow> nat \<Rightarrow> nat list \<Rightarrow> error + astate" where
  "setMasterNodes st treeIdx branchIdx v =
     (case setCell (masterNodes st) treeIdx branchIdx v of
        Inl e \<Rightarrow> Inl e
      | Inr m \<Rightarrow> Inr (st\<lparr>masterNodes := m\<rparr>))"

text \<open>
  The body of the loop over \<open>point.children\<close> (lines 110 to 135 of the source).
  \<open>recurse\<close> is the recursive call of \<open>_recursiveFiloTypes\<close> on the child's index; the
  loop carries the flag \<open>forceInterstitial\<close> and the accumulators.
\<close>

definition visitChild ::
  "(nat \<Rightarrow> astate \<Rightarrow> error + astate) \<Rightarrow> string list \<Rightarrow> nat \<Rightarrow> nat \<Rightarrow> real \<Rightarrow> real \<Rightarrow>
   real \<Rightarrow> real list \<Rightarrow> nat \<Rightarrow> nat \<Rightarrow> point \<Rightarrow> branch \<Rightarrow> bool \<times> astate \<Rightarrow>
   error + bool \<times> astate" where
  "visitChild recurse branchIDList treeIdx branchIdx terminalDist filoDist
     totalLength cumulativeLengths nPoints pointIdx point childBranch fs =
     (case fs of (forceInterstitial, st) \<Rightarrow>
      if length (points childBranch) < 1 then Inr (forceInterstitial, st)
      else if bid childBranch \<notin> set branchIDList then Inr (forceInterstitial, st)
      else
       (case listIndex branchIDList (bid childBranch) of
          Inl e \<Rightarrow> Inl e
        | Inr childBranchIdx \<Rightarrow>
           if fst (isFilo childBranch filoDist) then
             (if pointIdx < length cumulativeLengths then
               (let distPointToEnd = totalLength - cumulativeLengths ! pointIdx;
                    isTerminal = (distPointToEnd < terminalDist)
                in case setFiloType st treeIdx childBranchIdx
                          (if isTerminal then TERMINAL else INTERSTITIAL) of
                     Inl e \<Rightarrow> Inl e
                   | Inr st1 \<Rightarrow>
                      if length (children point) = 1 \<and> int pointIdx = int nPoints - 1 then
                        (case setFiloType st1 treeIdx childBranchIdx BRANCH_ONLY of
                           Inl e \<Rightarrow> Inl e
                         | Inr st2 \<Rightarrow>
                            (case setMasterNodes st2 treeIdx childBranchIdx [branchIdx] of
                               Inl e \<Rightarrow> Inl e
                             | Inr st3 \<Rightarrow> Inr (forceInterstitial, st3)))
                      else Inr (forceInterstitial, st1))
              else Inl IndexError)
           else
             (case recurse childBranchIdx st of
                Inl e \<Rightarrow> Inl e
              | Inr st1 \<Rightarrow> Inr (True, st1))))"

text \<open>
  Lines 138 to 145: every child of the points up to and including the current one whose
  cell holds TERMINAL is turned into INTERSTITIAL. The cell is addressed by
  \<open>childBranch.indexInParent()\<close>.
\<close>

definition downgradeChild :: "tree \<Rightarrow> nat \<Rightarrow> branch \<Rightarrow> astate \<Rightarrow> error + astate" where
  "downgradeChild t treeIdx childBranch st =
     (case indexInParent t childBranch of
        Inl e \<Rightarrow> Inl e
      | Inr childBranchIdx \<Rightarrow>
         (case getCell (filoTypes st) treeIdx childBranchIdx of
            Inl e \<Rightarrow> Inl e
          | Inr v \<Rightarrow>
             if v = TERMINAL then setFiloType st treeIdx childBranchIdx INTERSTITIAL
             else Inr st))"

definition downgradeTerminals :: "tree \<Rightarrow> nat \<Rightarrow> branch \<Rightarrow> nat \<Rightarrow> astate \<Rightarrow> error + astate" where
  "downgradeTerminals t treeIdx branch pointIdx st =
     forEach (\<lambda>prevPoint. forEach (downgradeChild t treeIdx) (children prevPoint))
       (take (Suc pointIdx) (points branch)) st"

text \<open>
  The body of the loop over \<open>enumerate(branch.points)\<close> (lines 105 to 145): a point
  without children is skipped and leaves the flag as it is; otherwise the flag is reset,
  the children are visited and, if one of them was not a filopodium, the terminal
  filopodia found so far are downgraded.
\<close>

definition visitPoint ::
  "(nat \<Rightarrow> astate \<Rightarrow> error + astate) \<Rightarrow> string list \<Rightarrow> tree \<Rightarrow> nat \<Rightarrow> nat \<Rightarrow> real \<Rightarrow> real \<Rightarrow>
   real \<Rightarrow> real list \<Rightarrow> branch \<Rightarrow> nat \<times> point \<Rightarrow> bool \<times> astate \<Rightarrow> error + bool \<times> astate" where
  "visitPoint recurse branchIDList t treeIdx branchIdx terminalDist filoDist
     totalLength cumulativeLengths branch ip fs =
     (case ip of (pointIdx, point) \<Rightarrow>
      if length (children point) = 0 then Inr fs
      else
       (case forEach (visitChild recurse branchIDList treeIdx branchIdx terminalDist filoDist
                        totalLength cumulativeLengths (length (points branch)) pointIdx point)
               (children point) (False, snd fs) of
          Inl e \<Rightarrow> Inl e
        | Inr (forceInterstitial, st1) \<Rightarrow>
           if forceInterstitial then
             (case downgradeTerminals t treeIdx branch pointIdx st1 of
                Inl e \<Rightarrow> Inl e
              | Inr st2 \<Rightarrow> Inr (forceInterstitial, st2))
           else Inr (forceInterstitial, st1)))"

text \<open>
  Lines 148 to 174: the role of the branch itself, from the part of it past its last
  branching point.
\<close>

definition lastPointWithChildren :: "branch \<Rightarrow> point option" where
  "lastPointWithChildren branch = find (\<lambda>p. length (children p) > 0) (rev (points branch))"

definition finishBranch ::
  "tree \<Rightarrow> nat \<Rightarrow> nat \<Rightarrow> real \<Rightarrow> real \<Rightarrow> real \<Rightarrow> branch \<Rightarrow> bool \<Rightarrow> astate \<Rightarrow> error + astate" where
  "finishBranch t treeIdx branchIdx filoDist totalLength totalLengthToLastBranch branch
     forceInterstitial st =
     (let totalDist = totalLength - totalLengthToLastBranch
      in if totalDist > 0 \<and> totalDist < filoDist then
           (case setFiloType st treeIdx branchIdx
                   (if forceInterstitial then BRANCH_WITH_INTERSTITIAL
                    else BRANCH_WITH_TERMINAL) of
              Inl e \<Rightarrow> Inl e
            | Inr st1 \<Rightarrow>
               (case lastPointWithChildren branch of
                  None \<Rightarrow> Inr st1
                | Some p \<Rightarrow>
                   (case mapE (indexInParent t) (children p) of
                      Inl e \<Rightarrow> Inl e
                    | Inr idxs \<Rightarrow> setMasterNodes st1 treeIdx branchIdx idxs)))
         else if totalDist = 0 then
           (case setFiloType st treeIdx branchIdx BRANCH_ONLY of
              Inl e \<Rightarrow> Inl e
            | Inr st1 \<Rightarrow>
               if points branch = [] then Inl IndexError
               else
                 (case mapE (indexInParent t) (children (last (points branch))) of
                    Inl e \<Rightarrow> Inl e
                  | Inr idxs \<Rightarrow> setMasterNodes st1 treeIdx branchIdx idxs))
         else
           (case setFiloType st treeIdx branchIdx BRANCH_ONLY of
              Inl e \<Rightarrow> Inl e
            | Inr st1 \<Rightarrow> setMasterNodes st1 treeIdx branchIdx [branchIdx]))"

text \<open>
  \<open>_recursiveFiloTypes\<close>. The branch is looked up by id in the tree's branch list at every
  call, so the recursion does not follow the structure of the data; the first argument is
  the depth of recursion Python allows, and running out of it is \<open>RecursionError\<close>.
\<close>

fun recursiveFiloTypes ::
  "nat \<Rightarrow> string list \<Rightarrow> tree list \<Rightarrow> nat \<Rightarrow> bool \<Rightarrow> bool \<Rightarrow> real \<Rightarrow> real \<Rightarrow>
   nat \<Rightarrow> astate \<Rightarrow> error + astate" where
  "recursiveFiloTypes 0 branchIDList trees treeIdx excludeAxon excludeBasal terminalDist
     filoDist branchIdx st = Inl RecursionError"
| "recursiveFiloTypes (Suc depth) branchIDList trees treeIdx excludeAxon excludeBasal
     terminalDist filoDist branchIdx st =
     (if treeIdx < length trees \<and> branchIdx < length branchIDList then
       (case getBranchByID (trees ! treeIdx) (branchIDList ! branchIdx) of
          None \<Rightarrow> setFiloType st treeIdx branchIdx ABSENT
        | Some branch \<Rightarrow>
           if isEmpty branch \<or> (excludeAxon \<and> isAxon branch) \<or> (excludeBasal \<and> isBasal branch)
           then setFiloType st treeIdx branchIdx ABSENT
           else if \<not> hasChildren branch \<and> lastPointWithLabel (pointsWithParent branch) ''lam'' \<ge> 0
           then setFiloType st treeIdx branchIdx BRANCH_ONLY
           else
            (case forEach
                    (visitPoint
                       (recursiveFiloTypes depth branchIDList trees treeIdx excludeAxon
                          excludeBasal terminalDist filoDist)
                       branchIDList (trees ! treeIdx) treeIdx branchIdx terminalDist filoDist
                       (fst (worldLengths branch)) (cumulativeWorldLengths branch) branch)
                    (enumerate 0 (points branch)) (False, st) of
               Inl e \<Rightarrow> Inl e
             | Inr (forceInterstitial, st1) \<Rightarrow>
                finishBranch (trees ! treeIdx) treeIdx branchIdx filoDist
                  (fst (worldLengths branch)) (snd (worldLengths branch)) branch
                  forceInterstitial st1))
      else Inl IndexError)"

text \<open>
  numpy's assignment through a boolean mask, \<open>target[mask] = v\<close> and
  \<open>target[mask] = source[mask]\<close>: a mask of another shape raises \<open>IndexError\<close>.
\<close>

definition maskedFill :: "'a list list \<Rightarrow> bool list list \<Rightarrow> 'a \<Rightarrow> error + 'a list list" where
  "maskedFill target msk v =
     (if sameShape target msk then Inr (cellwise (\<lambda>x m. if m then v else x) target msk)
      else Inl IndexError)"

definition maskedCopy ::
  "'a list list \<Rightarrow> bool list list \<Rightarrow> 'a list list \<Rightarrow> error + 'a list list" where
  "maskedCopy target msk source =
     (if sameShape target msk \<and> sameShape source msk
      then Inr (cellwise (\<lambda>xs m. if m then snd xs else fst xs) (cellwise Pair target source) msk)
      else Inl IndexError)"

text \<open>\<open>fillMasterChanged\<close>: one cell for every snapshot pair and branch index.\<close>

definition masterChangedCell :: "nat list list list \<Rightarrow> nat \<Rightarrow> nat \<Rightarrow> error + bool" where
  "masterChangedCell mNodes t b =
     (case getCell mNodes t b of
        Inl e \<Rightarrow> Inl e
      | Inr l1 \<Rightarrow>
         (case getCell mNodes (t + 1) b of
            Inl e \<Rightarrow> Inl e
          | Inr l2 \<Rightarrow> Inr (length l2 > 0 \<and> set l1 \<inter> set l2 = {})))"

definition fillMasterChanged ::
  "bool list list \<Rightarrow> nat list list list \<Rightarrow> error + bool list list" where
  "fillMasterChanged masterChanged mNodes =
     mapE (\<lambda>t. mapE (\<lambda>b. masterChangedCell mNodes t b) [0..<length (masterChanged ! t)])
       [0..<length masterChanged]"

text \<open>The boolean matrices of lines 58 to 69, computed from the matrix of roles.\<close>

definition filoExistsOf :: "FiloType list list \<Rightarrow> bool list list" where
  "filoExistsOf ft = map (map (\<lambda>x. rank x > rank ABSENT)) ft"

definition filosOf :: "FiloType list list \<Rightarrow> bool list list" where
  "filosOf ft = cellwise (\<and>) (filoExistsOf ft) (map (map (\<lambda>x. rank x < rank BRANCH_ONLY)) ft)"

definition branchesOf :: "FiloType list list \<Rightarrow> bool list list" where
  "branchesOf ft = map (map (\<lambda>x. rank x > rank TERMINAL)) ft"

definition branchWithFiloOf :: "FiloType list list \<Rightarrow> bool list list" where
  "branchWithFiloOf ft = cellwise (\<and>) (branchesOf ft) (filosOf ft)"

definition justBranchesOf :: "FiloType list list \<Rightarrow> bool list list" where
  "justBranchesOf ft = map (map (\<lambda>x. x = BRANCH_ONLY)) ft"

definition addedOf :: "FiloType list list \<Rightarrow> bool list list" where
  "addedOf ft =
     cellwise (\<or>)
       (cellwise (\<and>) (map (map Not) (butlast (filoExistsOf ft))) (tl (filosOf ft)))
       (cellwise (\<and>) (butlast (justBranchesOf ft)) (tl (branchWithFiloOf ft)))"

definition subtractedOf :: "FiloType list list \<Rightarrow> bool list list" where
  "subtractedOf ft =
     cellwise (\<or>)
       (cellwise (\<and>) (butlast (filosOf ft)) (map (map Not) (tl (filoExistsOf ft))))
       (cellwise (\<and>) (butlast (branchWithFiloOf ft)) (tl (justBranchesOf ft)))"

definition transitionedOf :: "FiloType list list \<Rightarrow> bool list list" where
  "transitionedOf ft =
     cellwise (\<and>)
       (cellwise (\<and>) (butlast (filosOf ft)) (map (map Not) (butlast (branchesOf ft))))
       (tl (branchesOf ft))"

record asResult =
  filoTypesR :: "FiloType list list"
  addedR :: "bool list list"
  subtractedR :: "bool list list"
  transitionedR :: "bool list list"
  masterChangedR :: "bool list list"
  masterNodesR :: "nat list list list"

text \<open>
  The loop over the snapshots (lines 47 to 56): a tree without branches or without a root
  point is skipped.
\<close>

definition classifyTree ::
  "nat \<Rightarrow> string list \<Rightarrow> tree list \<Rightarrow> bool \<Rightarrow> bool \<Rightarrow> real \<Rightarrow> real \<Rightarrow> nat \<Rightarrow> astate \<Rightarrow>
   error + astate" where
  "classifyTree depth branchIDList trees excludeAxon excludeBasal terminalDist filoDist
     treeIdx st =
     (if length (branches (trees ! treeIdx)) > 0 then
        (case rootPoint (trees ! treeIdx) of
           None \<Rightarrow> Inr st
         | Some treeRoot \<Rightarrow>
            forEach
              (\<lambda>branch st'.
                 case listIndex branchIDList (bid branch) of
                   Inl e \<Rightarrow> Inl e
                 | Inr branchIdx \<Rightarrow>
                    recursiveFiloTypes depth branchIDList trees treeIdx excludeAxon
                      excludeBasal terminalDist filoDist branchIdx st')
              (children treeRoot) st)
      else Inr st)"

text \<open>
  \<open>addedSubtractedTransitioned\<close>. With no snapshot at all, the allocation of
  \<open>masterChanged\<close> with \<open>nTrees - 1\<close> rows raises \<open>ValueError\<close>.
\<close>

definition addedSubtractedTransitioned ::
  "nat \<Rightarrow> tree list \<Rightarrow> bool \<Rightarrow> bool \<Rightarrow> real \<Rightarrow> real \<Rightarrow> error + asResult" where
  "addedSubtractedTransitioned depth trees excludeAxon excludeBasal terminalDist filoDist =
     (let nTrees = length trees;
          branchIDList = sortedBranchIDList trees;
          nBranches = length branchIDList
      in if nTrees = 0 then Inl ValueError
         else
          (case forEach
                  (classifyTree depth branchIDList trees excludeAxon excludeBasal
                     terminalDist filoDist)
                  [0..<nTrees]
                  \<lparr>filoTypes = replicate nTrees (replicate nBranches ABSENT),
                   masterNodes = emptyArrayMatrix nTrees nBranches\<rparr> of
             Inl e \<Rightarrow> Inl e
           | Inr st \<Rightarrow>
              (case fillMasterChanged (replicate (nTrees - 1) (replicate nBranches False))
                      (masterNodes st) of
                 Inl e \<Rightarrow> Inl e
               | Inr masterChanged \<Rightarrow>
                  (case maskedFill (addedOf (filoTypes st)) masterChanged False of
                     Inl e \<Rightarrow> Inl e
                   | Inr added \<Rightarrow>
                      (case maskedFill (subtractedOf (filoTypes st)) masterChanged False of
                         Inl e \<Rightarrow> Inl e
                       | Inr subtracted \<Rightarrow>
                          Inr \<lparr>filoTypesR = filoTypes st, addedR = added,
                               subtractedR = subtracted,
                               transitionedR = transitionedOf (filoTypes st),
                               masterChangedR = masterChanged,
                               masterNodesR = masterNodes st\<rparr>)))))"

section \<open>The motility calculator (\<open>motility.py\<close>)\<close>

text \<open>
  A cell of a float matrix: a finite value, an infinity or NaN. Finite values are reals
  (rounding and the sign of zero are not modelled); NaN and the infinities follow IEEE
  arithmetic, which is what numpy computes with.
\<close>

datatype fval = Val real | PosInf | NegInf | NaN

fun fneg :: "fval \<Rightarrow> fval" where
  "fneg (Val a) = Val (- a)"
| "fneg PosInf = NegInf"
| "fneg NegInf = PosInf"
| "fneg NaN = NaN"

fun fadd :: "fval \<Rightarrow> fval \<Rightarrow> fval" where
  "fadd NaN y = NaN"
| "fadd x NaN = NaN"
| "fadd (Val a) (Val b) = Val (a + b)"
| "fadd PosInf NegInf = NaN"
| "fadd NegInf PosInf = NaN"
| "fadd PosInf y = PosInf"
| "fadd NegInf y = NegInf"
| "fadd (Val a) y = y"

definition fsub :: "fval \<Rightarrow> fval \<Rightarrow> fval" where
  "fsub x y = fadd x (fneg y)"

fun fdiv :: "fval \<Rightarrow> fval \<Rightarrow> fval" where
  "fdiv NaN y = NaN"
| "fdiv x NaN = NaN"
| "fdiv (Val a) (Val b) =
     (if b \<noteq> 0 then Val (a / b)
      else if a = 0 then NaN else if a > 0 then PosInf else NegInf)"
| "fdiv (Val a) y = Val 0"
| "fdiv x (Val b) = (if (x = PosInf) = (b \<ge> 0) then PosInf else NegInf)"
| "fdiv x y = NaN"

definition isnan :: "fval \<Rightarrow> bool" where
  "isnan x = (x = NaN)"

text \<open>\<open>np.nansum\<close> of a row: NaN cells count as zero.\<close>

definition nansum :: "fval list \<Rightarrow> fval" where
  "nansum row = foldl fadd (Val 0) (map (\<lambda>x. if isnan x then Val 0 else x) row)"

text \<open>
  \<open>_lastPointWithLabel\<close> as \<open>motility.py\<close> calls it: the list starts with
  \<open>branch.parentPoint\<close>, which may be \<open>None\<close>; reading the annotation of \<open>None\<close> raises
  \<open>AttributeError\<close>.
\<close>

fun lastPointWithLabelOptFrom ::
  "int \<Rightarrow> int \<Rightarrow> point option list \<Rightarrow> string \<Rightarrow> error + int" where
  "lastPointWithLabelOptFrom i lastPointIdx [] label = Inr lastPointIdx"
| "lastPointWithLabelOptFrom i lastPointIdx (None # ps) label = Inl AttributeError"
| "lastPointWithLabelOptFrom i lastPointIdx (Some p # ps) label =
     lastPointWithLabelOptFrom (i + 1)
       (if containsLabel (annotation p) label then i else lastPointIdx) ps label"

definition lastPointWithLabelOpt :: "point option list \<Rightarrow> string \<Rightarrow> error + int" where
  "lastPointWithLabelOpt ps label = lastPointWithLabelOptFrom 0 (-1) ps label"

text \<open>
  Step 6 of \<open>_calcFiloLengths\<close>: the length of the part of the branch past its last
  branch point, if it is short enough.
\<close>

definition finalFiloLength :: "real \<Rightarrow> real \<Rightarrow> real \<Rightarrow> real" where
  "finalFiloLength filoDist totalLength totalLengthToLastBranch =
     (let lengthPastLastBranch =
            (if totalLengthToLastBranch > 0 then totalLength - totalLengthToLastBranch
             else filoDist + 1)
      in if lengthPastLastBranch < filoDist then lengthPastLastBranch else 0)"

text \<open>
  \<open>_calcFiloLengths\<close>. The recursion follows the child branches themselves. The tree is
  the one the branch belongs to, which \<open>indexInParent\<close> consults. \<open>calcFiloPoints\<close> and
  \<open>calcFiloChildren\<close> are the two loops of step 5.
\<close>

function (sequential) calcFiloLengths ::
    "tree \<Rightarrow> nat \<Rightarrow> bool \<Rightarrow> bool \<Rightarrow> real \<Rightarrow> branch \<Rightarrow> fval list list \<Rightarrow> error + fval list list"
  and calcFiloPoints ::
    "tree \<Rightarrow> nat \<Rightarrow> bool \<Rightarrow> bool \<Rightarrow> real \<Rightarrow> point list \<Rightarrow> fval list list \<Rightarrow> error + fval list list"
  and calcFiloChildren ::
    "tree \<Rightarrow> nat \<Rightarrow> bool \<Rightarrow> bool \<Rightarrow> real \<Rightarrow> branch list \<Rightarrow> fval list list \<Rightarrow> error + fval list list"
  where
  "calcFiloLengths t treeIdx excludeAxon excludeBasal filoDist (Branch i pp ps) filoLengths =
     (case indexInParent t (Branch i pp ps) of
        Inl e \<Rightarrow> Inl e
      | Inr branchIdx \<Rightarrow>
         if length (pp # map Some ps) < 2 then setCell filoLengths treeIdx branchIdx (Val 0)
         else
          (case (if excludeAxon then lastPointWithLabelOpt (pp # map Some ps) ''axon''
                 else Inr (-1)) of
             Inl e \<Rightarrow> Inl e
           | Inr axonIdx \<Rightarrow>
              if excludeAxon \<and> axonIdx \<ge> 0 then setCell filoLengths treeIdx branchIdx NaN
              else
               (case (if excludeBasal then lastPointWithLabelOpt (pp # map Some ps) ''basal''
                      else Inr (-1)) of
                  Inl e \<Rightarrow> Inl e
                | Inr basalIdx \<Rightarrow>
                   if excludeBasal \<and> basalIdx \<ge> 0
                   then setCell filoLengths treeIdx branchIdx NaN
                   else if fst (isFilo (Branch i pp ps) filoDist)
                   then setCell filoLengths treeIdx branchIdx
                          (Val (snd (isFilo (Branch i pp ps) filoDist)))
                   else
                    (case calcFiloPoints t treeIdx excludeAxon excludeBasal filoDist ps
                            filoLengths of
                       Inl e \<Rightarrow> Inl e
                     | Inr filoLengths' \<Rightarrow>
                        setCell filoLengths' treeIdx branchIdx
                          (Val (finalFiloLength filoDist
                                  (fst (worldLengths (Branch i pp ps)))
                                  (snd (worldLengths (Branch i pp ps)))))))))"
| "calcFiloPoints t treeIdx excludeAxon excludeBasal filoDist [] filoLengths = Inr filoLengths"
| "calcFiloPoints t treeIdx excludeAxon excludeBasal filoDist (p # ps) filoLengths =
     (case calcFiloChildren t treeIdx excludeAxon excludeBasal filoDist (children p)
             filoLengths of
        Inl e \<Rightarrow> Inl e
      | Inr filoLengths' \<Rightarrow>
         calcFiloPoints t treeIdx excludeAxon excludeBasal filoDist ps filoLengths')"
| "calcFiloChildren t treeIdx excludeAxon excludeBasal filoDist [] filoLengths =
     Inr filoLengths"
| "calcFiloChildren t treeIdx excludeAxon excludeBasal filoDist (b # bs) filoLengths =
     (case calcFiloLengths t treeIdx excludeAxon excludeBasal filoDist b filoLengths of
        Inl e \<Rightarrow> Inl e
      | Inr filoLengths' \<Rightarrow>
         calcFiloChildren t treeIdx excludeAxon excludeBasal filoDist bs filoLengths')"
  by pat_completeness auto

termination
  apply (relation "measure (\<lambda>x. case x of
          Inl (t, treeIdx, ea, eb, fd, b, fl) \<Rightarrow> size b
        | Inr (Inl (t, treeIdx, ea, eb, fd, ps, fl)) \<Rightarrow> size_list size ps
        | Inr (Inr (t, treeIdx, ea, eb, fd, bs, fl)) \<Rightarrow> size_list size bs)")
  apply auto
  subgoal for p ps by (cases p) auto
  done

text \<open>
  The loop over the snapshots in \<open>motility\<close> (lines 31 to 34): \<open>tree.rootPoint.children\<close>
  is read without a test, so a tree without a root point raises \<open>AttributeError\<close>. The
  value of \<open>TDBL\<close> is collected by \<open>motility\<close> itself below.
\<close>

definition calcTree ::
  "tree list \<Rightarrow> bool \<Rightarrow> bool \<Rightarrow> real \<Rightarrow> nat \<Rightarrow> fval list list \<Rightarrow> error + fval list list" where
  "calcTree trees excludeAxon excludeBasal filoDist treeIdx filoLengths =
     (case rootPoint (trees ! treeIdx) of
        None \<Rightarrow> Inl AttributeError
      | Some treeRoot \<Rightarrow>
         calcFiloChildren (trees ! treeIdx) treeIdx excludeAxon excludeBasal filoDist
           (children treeRoot) filoLengths)"

record motilities =
  raw :: "fval list list"
  rawTDBL :: "fval list"
  rawFilo :: "fval list"
  rawNFilo :: "fval list"

text \<open>
  \<open>motility\<close>. \<open>TDBL\<close> is a collaborator outside the sources and is a parameter here;
  \<open>depth\<close> is the recursion depth handed to \<open>addedSubtractedTransitioned\<close>.
\<close>

definition nFiloOf :: "FiloType list list \<Rightarrow> nat list" where
  "nFiloOf ft =
     map (\<lambda>row. length (filter (\<lambda>x. x) row))
       (cellwise (\<and>) (map (map (\<lambda>x. rank x > rank ABSENT)) ft)
          (map (map (\<lambda>x. rank x < rank BRANCH_ONLY)) ft))"

definition motility ::
  "(tree \<Rightarrow> bool \<Rightarrow> bool \<Rightarrow> bool \<Rightarrow> real \<Rightarrow> real) \<Rightarrow> nat \<Rightarrow> tree list \<Rightarrow> bool \<Rightarrow> bool \<Rightarrow> bool \<Rightarrow>
   real \<Rightarrow> real \<Rightarrow> error + motilities \<times> fval list list" where
  "motility TDBL depth trees excludeAxon excludeBasal includeAS terminalDist filoDist =
     (case addedSubtractedTransitioned depth trees excludeAxon excludeBasal terminalDist
             filoDist of
        Inl e \<Rightarrow> Inl e
      | Inr r \<Rightarrow>
         if trees = [] then Inl IndexError
         else
          (let nTrees = length trees;
               nBranches = length (branches (last trees));
               allTDBL = map (\<lambda>t. TDBL t excludeAxon excludeBasal True filoDist) trees
           in case forEach (calcTree trees excludeAxon excludeBasal filoDist) [0..<nTrees]
                     (replicate nTrees (replicate nBranches NaN)) of
                Inl e \<Rightarrow> Inl e
              | Inr filoLengths \<Rightarrow>
                 (let lengthAdded = tl filoLengths;
                      lengthSubtracted = butlast filoLengths
                  in case maskedFill (cellwise fsub lengthAdded lengthSubtracted)
                            (masterChangedR r) NaN of
                       Inl e \<Rightarrow> Inl e
                     | Inr rawMotility0 \<Rightarrow>
                        (case (if includeAS then
                                 (case maskedCopy rawMotility0 (addedR r) lengthAdded of
                                    Inl e \<Rightarrow> Inl e
                                  | Inr rawMotility1 \<Rightarrow>
                                     maskedCopy rawMotility1 (subtractedR r)
                                       (map (map fneg) lengthSubtracted))
                               else Inr rawMotility0) of
                           Inl e \<Rightarrow> Inl e
                         | Inr rawMotility \<Rightarrow>
                            (case maskedFill (take (length rawMotility) filoLengths)
                                    (map (map isnan) rawMotility) NaN of
                               Inl e \<Rightarrow> Inl e
                             | Inr filoLengthWithNan \<Rightarrow>
                                Inr (\<lparr>raw = rawMotility,
                                      rawTDBL = map2 fdiv (map nansum rawMotility)
                                                  (map Val (butlast allTDBL)),
                                      rawFilo = map2 fdiv (map nansum rawMotility)
                                                  (map nansum filoLengthWithNan),
                                      rawNFilo = map2 fdiv (map nansum rawMotility)
                                                   (map (\<lambda>n. Val (real n))
                                                      (butlast (nFiloOf (filoTypesR r))))\<rparr>,
                                     filoLengths))))))"

section \<open>Example snapshots\<close>

text \<open>
  A soma at the origin and a trunk branch \<open>0000\<close> along the x axis with a branch point at
  distance 20 and its tip further out; a side branch \<open>0001\<close> of length \<open>sideLen\<close> grows
  from the branch point.
\<close>

definition soma :: point where
  "soma = Point ''s'' (0, 0, 0) '''' []"

definition sideBranch :: "real \<Rightarrow> branch" where
  "sideBranch sideLen =
     Branch ''0001'' (Some (Point ''p1'' (20, 0, 0) '''' []))
       [Point ''q1'' (20, sideLen, 0) '''' []]"

definition trunkBranch :: "real \<Rightarrow> real \<Rightarrow> branch" where
  "trunkBranch tip sideLen =
     Branch ''0000'' (Some soma)
       [Point ''p1'' (20, 0, 0) '''' [sideBranch sideLen], Point ''p2'' (tip, 0, 0) '''' []]"

definition exampleTree :: "real \<Rightarrow> real \<Rightarrow> tree" where
  "exampleTree tip sideLen =
     \<lparr>rootPoint = Some (Point ''s'' (0, 0, 0) '''' [trunkBranch tip sideLen]),
      branches = [trunkBranch tip sideLen, sideBranch sideLen]\<rparr>"

definition emptyTree :: tree where
  "emptyTree = \<lparr>rootPoint = None, branches = []\<rparr>"

text \<open>Snapshots whose branches all grow from the soma, each with a single point.\<close>

definition stubBranch :: "string \<Rightarrow> location \<Rightarrow> branch" where
  "stubBranch branchID loc = Branch branchID (Some soma) [Point ''p'' loc '''' []]"

definition starTree :: "branch list \<Rightarrow> tree" where
  "starTree bs = \<lparr>rootPoint = Some (Point ''s'' (0, 0, 0) '''' bs), branches = bs\<rparr>"

definition earlySnapshot :: tree where
  "earlySnapshot = starTree [stubBranch ''0000'' (15, 0, 0), stubBranch ''0002'' (0, 3, 0)]"

definition lateSnapshot :: tree where
  "lateSnapshot =
     starTree [stubBranch ''0000'' (15, 0, 0), stubBranch ''0001'' (-4, 0, 0),
               stubBranch ''0002'' (0, 3, 0)]"

text \<open>A stand-in for the collaborator \<open>TDBL\<close> in the examples.\<close>

definition unitTDBL :: "tree \<Rightarrow> bool \<Rightarrow> bool \<Rightarrow> bool \<Rightarrow> real \<Rightarrow> real" where
  "unitTDBL t excludeAxon excludeBasal includeFilo filoDist = 1"

text \<open>
  The denominator of the aggregate normalised by filopodium count as the spec words it
  (section 4.4, (c)): the number of branches whose role is TERMINAL or INTERSTITIAL,
  strictly.
\<close>

definition nFiloStrictSpec :: "FiloType list \<Rightarrow> nat" where
  "nFiloStrictSpec row = length (filter (\<lambda>x. x = TERMINAL \<or> x = INTERSTITIAL) row)"

text \<open>
  Three snapshots: an empty one, one where the side branch is a filopodium of length 3,
  and one where it has grown to length 30; and what the classification returns for them
  with the default thresholds.
\<close>

definition exampleTrees :: "tree list" where
  "exampleTrees = [emptyTree, exampleTree 25 3, exampleTree 25 30]"

definition exampleResult :: asResult where
  "exampleResult =
     \<lparr>filoTypesR = [[ABSENT, ABSENT], [BRANCH_WITH_TERMINAL, TERMINAL],
                    [BRANCH_WITH_INTERSTITIAL, BRANCH_ONLY]],
      addedR = [[False, True], [False, False]],
      subtractedR = [[False, False], [False, False]],
      transitionedR = [[False, False], [False, True]],
      masterChangedR = [[True, False], [False, True]],
      masterNodesR = [[[], []], [[1], []], [[1], [1]]]\<rparr>"




text \<open>
  Two snapshots in which only the tip of the trunk grows, from 25 to 27, and what the
  classification and the motility computation return for them.
\<close>

definition growthTrees :: "tree list" where
  "growthTrees = [exampleTree 25 3, exampleTree 27 3]"

definition growthResult :: asResult where
  "growthResult =
     \<lparr>filoTypesR = [[BRANCH_WITH_TERMINAL, TERMINAL], [BRANCH_WITH_TERMINAL, TERMINAL]],
      addedR = [[False, False]],
      subtractedR = [[False, False]],
      transitionedR = [[False, False]],
      masterChangedR = [[False, False]],
      masterNodesR = [[[1], []], [[1], []]]\<rparr>"

definition growthMotility :: motilities where
  "growthMotility =
     \<lparr>raw = [[Val 2, Val 0]], rawTDBL = [Val 2], rawFilo = [Val (1 / 4)], rawNFilo = [Val 1]\<rparr>"

section \<open>Properties\<close>

subsection \<open>Auxiliary facts\<close>

lemma deltaSz_along_x: "deltaSz (x1, y, z) (x2, y, z) = \<bar>x1 - x2\<bar>"
  by (simp add: deltaSz_def)

lemma deltaSz_along_y: "deltaSz (x, y1, z) (x, y2, z) = \<bar>y1 - y2\<bar>"
  by (simp add: deltaSz_def)

lemma cellwise_length: "length (cellwise f A B) = min (length A) (length B)"
  by (simp add: cellwise_def)

lemma cellwise_row_length:
  "t < length (cellwise f A B) \<Longrightarrow>
   length (cellwise f A B ! t) = min (length (A ! t)) (length (B ! t))"
  by (simp add: cellwise_def)

lemma cellwise_cell:
  "t < length (cellwise f A B) \<Longrightarrow> b < length (cellwise f A B ! t) \<Longrightarrow>
   cellwise f A B ! t ! b = f (A ! t ! b) (B ! t ! b)"
  by (simp add: cellwise_def)

lemma sameShape_index:
  assumes "sameShape A B"
  shows "length A = length B" and "t < length B \<Longrightarrow> length (A ! t) = length (B ! t)"
proof -
  from assms have eq: "map length A = map length B" by (simp add: sameShape_def)
  then show len: "length A = length B" by (rule map_eq_imp_length_eq)
  assume "t < length B"
  with len have "map length A ! t = length (A ! t)" "map length B ! t = length (B ! t)"
    by simp_all
  with eq show "length (A ! t) = length (B ! t)" by simp
qed

lemma maskedFill_shape:
  assumes "maskedFill target msk v = Inr res"
  shows "sameShape target msk" and "sameShape res msk"
proof -
  from assms have sh: "sameShape target msk"
    and res: "res = cellwise (\<lambda>x m. if m then v else x) target msk"
    by (auto simp: maskedFill_def split: if_splits)
  show "sameShape target msk" by (rule sh)
  have "length res = length msk"
    using sameShape_index(1)[OF sh] by (simp add: res cellwise_def)
  moreover have "length (res ! i) = length (msk ! i)" if "i < length msk" for i
    using sameShape_index[OF sh] that by (simp add: res cellwise_def)
  ultimately show "sameShape res msk"
    by (auto simp: sameShape_def intro!: nth_equalityI)
qed

lemma maskedFill_cell:
  assumes "maskedFill target msk v = Inr res" "t < length msk" "b < length (msk ! t)"
  shows "res ! t ! b = (if msk ! t ! b then v else target ! t ! b)"
    and "t < length target" and "b < length (target ! t)"
proof -
  from assms(1) have res: "res = cellwise (\<lambda>x m. if m then v else x) target msk"
    by (auto simp: maskedFill_def split: if_splits)
  from sameShape_index[OF maskedFill_shape(1)[OF assms(1)]] assms(2,3)
  show tl: "t < length target" and bl: "b < length (target ! t)" by simp_all
  from tl bl assms(2,3) show "res ! t ! b = (if msk ! t ! b then v else target ! t ! b)"
    by (simp add: res cellwise_def)
qed

lemma addedOf_cell:
  assumes "t < length (addedOf ft)" "b < length (addedOf ft ! t)"
  shows "addedOf ft ! t ! b =
           ((\<not> rank (ft ! t ! b) > rank ABSENT \<and>
             (rank (ft ! Suc t ! b) > rank ABSENT \<and> rank (ft ! Suc t ! b) < rank BRANCH_ONLY)) \<or>
            (ft ! t ! b = BRANCH_ONLY \<and>
             (rank (ft ! Suc t ! b) > rank TERMINAL \<and>
              (rank (ft ! Suc t ! b) > rank ABSENT \<and> rank (ft ! Suc t ! b) < rank BRANCH_ONLY))))"
  using assms
  by (simp add: addedOf_def filosOf_def filoExistsOf_def branchWithFiloOf_def branchesOf_def
      justBranchesOf_def cellwise_def nth_butlast nth_tl)

lemma subtractedOf_cell:
  assumes "t < length (subtractedOf ft)" "b < length (subtractedOf ft ! t)"
  shows "subtractedOf ft ! t ! b =
           (((rank (ft ! t ! b) > rank ABSENT \<and> rank (ft ! t ! b) < rank BRANCH_ONLY) \<and>
             \<not> rank (ft ! Suc t ! b) > rank ABSENT) \<or>
            ((rank (ft ! t ! b) > rank TERMINAL \<and>
              (rank (ft ! t ! b) > rank ABSENT \<and> rank (ft ! t ! b) < rank BRANCH_ONLY)) \<and>
             ft ! Suc t ! b = BRANCH_ONLY))"
  using assms
  by (simp add: subtractedOf_def filosOf_def filoExistsOf_def branchWithFiloOf_def branchesOf_def
      justBranchesOf_def cellwise_def nth_butlast nth_tl)

lemma transitionedOf_cell:
  assumes "t < length (transitionedOf ft)" "b < length (transitionedOf ft ! t)"
  shows "transitionedOf ft ! t ! b =
           (((rank (ft ! t ! b) > rank ABSENT \<and> rank (ft ! t ! b) < rank BRANCH_ONLY) \<and>
             \<not> rank (ft ! t ! b) > rank TERMINAL) \<and>
            rank (ft ! Suc t ! b) > rank TERMINAL)"
  using assms
  by (simp add: transitionedOf_def filosOf_def filoExistsOf_def branchesOf_def
      cellwise_def nth_butlast nth_tl)

lemma addedSubtractedTransitioned_result:
  assumes "addedSubtractedTransitioned depth trees excludeAxon excludeBasal terminalDist filoDist = Inr r"
  shows "maskedFill (addedOf (filoTypesR r)) (masterChangedR r) False = Inr (addedR r)"
    and "maskedFill (subtractedOf (filoTypesR r)) (masterChangedR r) False = Inr (subtractedR r)"
    and "transitionedR r = transitionedOf (filoTypesR r)"
  using assms
  by (auto simp: addedSubtractedTransitioned_def Let_def split: if_splits sum.splits)




lemmas example_defs = exampleTrees_def emptyTree_def exampleTree_def trunkBranch_def sideBranch_def soma_def
  earlySnapshot_def lateSnapshot_def starTree_def stubBranch_def unitTDBL_def
lemmas engine_defs = isEmpty_def hasChildren_def pointsWithParent_def isAxon_def isBasal_def
  cumulativeWorldLengths_def worldLengths_def isFilo_def indexInParent_def listIndex_def
  lastPointWithLabel_def getBranchByID_def deltaSz_along_x deltaSz_along_y sortedBranchIDList_def
lemmas matrix_defs = getCell_def setCell_def cellwise_def sameShape_def setFiloType_def
  setMasterNodes_def maskedFill_def maskedCopy_def emptyArrayMatrix_def emptyArrayArray_def
lemmas classifier_defs = classifyTree_def visitPoint_def visitChild_def finishBranch_def
  downgradeTerminals_def downgradeChild_def lastPointWithChildren_def
  fillMasterChanged_def masterChangedCell_def
  addedOf_def subtractedOf_def transitionedOf_def filosOf_def filoExistsOf_def branchesOf_def
  branchWithFiloOf_def justBranchesOf_def

lemma example_classified:
  "addedSubtractedTransitioned 5 exampleTrees True True 10 10 = Inr exampleResult"
  by (simp add: addedSubtractedTransitioned_def example_defs engine_defs matrix_defs
      classifier_defs exampleResult_def upt_rec numeral_nat Let_def)

subsection \<open>The change masks\<close>

text \<open>
  Claim C1. In the matrices \<open>addedSubtractedTransitioned\<close> returns, for every snapshot pair
  \<open>t\<close> and every branch index \<open>b\<close>: if \<open>masterChanged[t,b]\<close> is true, then
  \<open>added[t,b]\<close> and \<open>subtracted[t,b]\<close> are both false.
\<close>

theorem masterChanged_clears_added_subtracted:
  assumes "addedSubtractedTransitioned depth trees excludeAxon excludeBasal terminalDist filoDist = Inr r"
    and "t < length (masterChangedR r)" and "b < length (masterChangedR r ! t)"
    and "masterChangedR r ! t ! b"
  shows "\<not> addedR r ! t ! b \<and> \<not> subtractedR r ! t ! b"
  using maskedFill_cell(1)[OF addedSubtractedTransitioned_result(1)[OF assms(1)] assms(2,3)]
        maskedFill_cell(1)[OF addedSubtractedTransitioned_result(2)[OF assms(1)] assms(2,3)]
        assms(4)
  by simp

text \<open>
  In the example the trunk branch is absent in the first snapshot and a branch with a
  terminal filopodium in the second, so it counts as added before the mask is applied;
  its master nodes change, and the returned matrices have it neither added nor subtracted.
\<close>

theorem masterChanged_clears_added_subtracted_witness:
  "addedSubtractedTransitioned 5 exampleTrees True True 10 10 = Inr exampleResult \<and>
   0 < length (masterChangedR exampleResult) \<and> 0 < length (masterChangedR exampleResult ! 0) \<and>
   masterChangedR exampleResult ! 0 ! 0 \<and> addedOf (filoTypesR exampleResult) ! 0 ! 0 \<and>
   \<not> addedR exampleResult ! 0 ! 0 \<and> \<not> subtractedR exampleResult ! 0 ! 0"
proof -
  have mc: "0 < length (masterChangedR exampleResult)"
    "0 < length (masterChangedR exampleResult ! 0)" "masterChangedR exampleResult ! 0 ! 0"
    by (simp_all add: exampleResult_def)
  have pre: "addedOf (filoTypesR exampleResult) ! 0 ! 0"
    by (simp add: exampleResult_def classifier_defs cellwise_def)
  from masterChanged_clears_added_subtracted[OF example_classified mc] example_classified mc pre
  show ?thesis by simp
qed

lemma added_subtracted_cells_exclusive:
  assumes "t < length (addedOf ft)" "b < length (addedOf ft ! t)"
    and "t < length (subtractedOf ft)" "b < length (subtractedOf ft ! t)"
  shows "\<not> (addedOf ft ! t ! b \<and> subtractedOf ft ! t ! b)"
  unfolding addedOf_cell[OF assms(1,2)] subtractedOf_cell[OF assms(3,4)]
  by (cases "ft ! t ! b") simp_all

text \<open>
  Claim C5. For every snapshot pair \<open>t\<close> and every branch index \<open>b\<close>, the returned
  \<open>added[t,b]\<close> and \<open>subtracted[t,b]\<close> are never both true.
\<close>

theorem added_subtracted_exclusive:
  assumes "addedSubtractedTransitioned depth trees excludeAxon excludeBasal terminalDist filoDist = Inr r"
    and "t < length (addedR r)" and "b < length (addedR r ! t)"
  shows "\<not> (addedR r ! t ! b \<and> subtractedR r ! t ! b)"
proof
  assume both: "addedR r ! t ! b \<and> subtractedR r ! t ! b"
  note ra = addedSubtractedTransitioned_result(1)[OF assms(1)]
  note rs = addedSubtractedTransitioned_result(2)[OF assms(1)]
  have t: "t < length (masterChangedR r)"
    using sameShape_index(1)[OF maskedFill_shape(2)[OF ra]] assms(2) by simp
  have b: "b < length (masterChangedR r ! t)"
    using sameShape_index(2)[OF maskedFill_shape(2)[OF ra] t] assms(3) by simp
  from both maskedFill_cell(1)[OF ra t b] maskedFill_cell(1)[OF rs t b]
  have "addedOf (filoTypesR r) ! t ! b \<and> subtractedOf (filoTypesR r) ! t ! b"
    by (simp split: if_splits)
  with added_subtracted_cells_exclusive[OF maskedFill_cell(2,3)[OF ra t b]
      maskedFill_cell(2,3)[OF rs t b]]
  show False by simp
qed

theorem added_subtracted_exclusive_witness:
  "addedSubtractedTransitioned 5 exampleTrees True True 10 10 = Inr exampleResult \<and>
   0 < length (addedR exampleResult) \<and> 1 < length (addedR exampleResult ! 0) \<and>
   addedR exampleResult ! 0 ! 1 \<and> \<not> subtractedR exampleResult ! 0 ! 1"
proof -
  have idx: "0 < length (addedR exampleResult)" "1 < length (addedR exampleResult ! 0)"
    and a: "addedR exampleResult ! 0 ! 1"
    by (simp_all add: exampleResult_def)
  from added_subtracted_exclusive[OF example_classified idx] example_classified idx a
  show ?thesis by simp
qed

text \<open>
  Claim C10. The mask \<open>masterChanged\<close> clears \<open>added\<close> and \<open>subtracted\<close> only: every cell
  of the returned \<open>transitioned\<close> is what lines 58 to 69 compute from the roles alone, and
  there is an input with a cell where \<open>transitioned\<close> and \<open>masterChanged\<close> are both true.
\<close>

theorem transitioned_not_masked:
  "(\<forall>depth trees excludeAxon excludeBasal terminalDist filoDist r t b.
      addedSubtractedTransitioned depth trees excludeAxon excludeBasal terminalDist filoDist = Inr r
      \<longrightarrow> t < length (transitionedR r) \<longrightarrow> b < length (transitionedR r ! t)
      \<longrightarrow> transitionedR r ! t ! b =
            (rank ABSENT < rank (filoTypesR r ! t ! b) \<and>
             rank (filoTypesR r ! t ! b) < rank BRANCH_ONLY \<and>
             \<not> rank TERMINAL < rank (filoTypesR r ! t ! b) \<and>
             rank TERMINAL < rank (filoTypesR r ! Suc t ! b))) \<and>
   (\<exists>depth trees excludeAxon excludeBasal terminalDist filoDist r t b.
      addedSubtractedTransitioned depth trees excludeAxon excludeBasal terminalDist filoDist = Inr r
      \<and> t < length (transitionedR r) \<and> b < length (transitionedR r ! t)
      \<and> t < length (masterChangedR r) \<and> b < length (masterChangedR r ! t)
      \<and> transitionedR r ! t ! b \<and> masterChangedR r ! t ! b)"
proof (intro conjI allI impI)
  fix depth trees excludeAxon excludeBasal terminalDist filoDist r t b
  assume r: "addedSubtractedTransitioned depth trees excludeAxon excludeBasal terminalDist filoDist = Inr r"
    and t: "t < length (transitionedR r)" and b: "b < length (transitionedR r ! t)"
  from t b transitionedOf_cell[of t "filoTypesR r" b]
  show "transitionedR r ! t ! b =
            (rank ABSENT < rank (filoTypesR r ! t ! b) \<and>
             rank (filoTypesR r ! t ! b) < rank BRANCH_ONLY \<and>
             \<not> rank TERMINAL < rank (filoTypesR r ! t ! b) \<and>
             rank TERMINAL < rank (filoTypesR r ! Suc t ! b))"
    unfolding addedSubtractedTransitioned_result(3)[OF r] by simp
next
  have "1 < length (transitionedR exampleResult) \<and> 1 < length (transitionedR exampleResult ! 1)
      \<and> 1 < length (masterChangedR exampleResult) \<and> 1 < length (masterChangedR exampleResult ! 1)
      \<and> transitionedR exampleResult ! 1 ! 1 \<and> masterChangedR exampleResult ! 1 ! 1"
    by (simp add: exampleResult_def)
  with example_classified
  show "\<exists>depth trees excludeAxon excludeBasal terminalDist filoDist r t b.
      addedSubtractedTransitioned depth trees excludeAxon excludeBasal terminalDist filoDist = Inr r
      \<and> t < length (transitionedR r) \<and> b < length (transitionedR r ! t)
      \<and> t < length (masterChangedR r) \<and> b < length (masterChangedR r ! t)
      \<and> transitionedR r ! t ! b \<and> masterChangedR r ! t ! b"
    by blast
qed

theorem transitioned_not_masked_witness:
  "addedSubtractedTransitioned 5 exampleTrees True True 10 10 = Inr exampleResult \<and>
   1 < length (transitionedR exampleResult) \<and> 1 < length (transitionedR exampleResult ! 1) \<and>
   masterChangedR exampleResult ! 1 ! 1 \<and>
   transitionedR exampleResult ! 1 ! 1 =
     (rank ABSENT < rank (filoTypesR exampleResult ! 1 ! 1) \<and>
      rank (filoTypesR exampleResult ! 1 ! 1) < rank BRANCH_ONLY \<and>
      \<not> rank TERMINAL < rank (filoTypesR exampleResult ! 1 ! 1) \<and>
      rank TERMINAL < rank (filoTypesR exampleResult ! Suc 1 ! 1))"
proof -
  have idx: "1 < length (transitionedR exampleResult)"
    "1 < length (transitionedR exampleResult ! 1)"
    and mc: "masterChangedR exampleResult ! 1 ! 1"
    by (simp_all add: exampleResult_def)
  from conjunct1[OF transitioned_not_masked, rule_format, OF example_classified idx]
    example_classified idx mc
  show ?thesis by simp
qed

lemma setCell_getCell: "setCell m i j v = Inr m' \<Longrightarrow> getCell m' i j = Inr v"
  by (auto simp: setCell_def getCell_def split: if_splits)





subsection \<open>The classifier's treatment of a filopodium child\<close>





subsection \<open>The filopodium lengths of \<open>motility\<close>\<close>

lemma lastPointWithLabelOptFrom_Some:
  "lastPointWithLabelOptFrom i l (map Some ps) label = Inr (lastPointWithLabelFrom i l ps label)"
  by (induction ps arbitrary: i l) simp_all

lemma lastPointWithLabelOpt_parent:
  "lastPointWithLabelOpt (pp # map Some ps) label =
     (case pp of None \<Rightarrow> Inl AttributeError
      | Some p \<Rightarrow> Inr (lastPointWithLabel (pointsWithParent (Branch i pp ps)) label))"
  using lastPointWithLabelOptFrom_Some[of 0 "-1" "p # ps" label for p]
  by (simp add: lastPointWithLabelOpt_def lastPointWithLabel_def pointsWithParent_def
      split: option.splits)

lemma calcFiloLengths_own_cell:
  assumes run: "calcFiloLengths t treeIdx excludeAxon excludeBasal filoDist branch filoLengths
                = Inr filoLengths'"
    and idx: "indexInParent t branch = Inr branchIdx"
    and nonempty: "\<not> isEmpty branch"
    and axon: "\<not> (excludeAxon \<and> isAxon branch)"
    and basal: "\<not> (excludeBasal \<and> isBasal branch)"
    and nofilo: "\<not> fst (isFilo branch filoDist)"
  shows "getCell filoLengths' treeIdx branchIdx =
           Inr (Val (finalFiloLength filoDist (fst (worldLengths branch))
                       (snd (worldLengths branch))))"
proof (cases branch)
  case (Branch i pp ps)
  from nonempty Branch have len: "\<not> length (pp # map Some ps) < 2"
    by (cases ps) (simp_all add: isEmpty_def)
  have ax: "excludeAxon \<Longrightarrow> lastPointWithLabelOpt (pp # map Some ps) ''axon'' = Inr k \<Longrightarrow> \<not> k \<ge> 0" for k
    using axon Branch lastPointWithLabelOpt_parent[of pp ps "''axon''" i]
    by (auto simp: isAxon_def split: option.splits)
  have ba: "excludeBasal \<Longrightarrow> lastPointWithLabelOpt (pp # map Some ps) ''basal'' = Inr k \<Longrightarrow> \<not> k \<ge> 0" for k
    using basal Branch lastPointWithLabelOpt_parent[of pp ps "''basal''" i]
    by (auto simp: isBasal_def split: option.splits)
  from run idx nofilo len ax ba
  obtain fl1 where "setCell fl1 treeIdx branchIdx
      (Val (finalFiloLength filoDist (fst (worldLengths branch)) (snd (worldLengths branch))))
      = Inr filoLengths'"
    unfolding Branch
    by (auto simp del: list.size length_map split: sum.splits if_splits)
  then show ?thesis by (rule setCell_getCell)
qed

text \<open>
  Claim C7. In \<open>_calcFiloLengths\<close>, a branch that is not a filopodium and whose trailing
  segment \<open>totalLength - lengthToLastBranch\<close> is exactly \<open>filoDist\<close> gets the filopodium
  length 0: the comparison with \<open>filoDist\<close> is strict. The branch is one whose own length
  is computed, that is, it is not excluded as axon or basal dendrite (an excluded branch
  gets NaN before any length is looked at).
\<close>

theorem trailing_segment_at_threshold_contributes_zero:
  assumes run: "calcFiloLengths t treeIdx excludeAxon excludeBasal filoDist branch filoLengths
                = Inr filoLengths'"
    and idx: "indexInParent t branch = Inr branchIdx"
    and axon: "\<not> (excludeAxon \<and> isAxon branch)"
    and basal: "\<not> (excludeBasal \<and> isBasal branch)"
    and nofilo: "\<not> fst (isFilo branch filoDist)"
    and boundary: "fst (worldLengths branch) - snd (worldLengths branch) = filoDist"
  shows "getCell filoLengths' treeIdx branchIdx = Inr (Val 0)"
proof (cases "isEmpty branch")
  case True
  then obtain i pp where b: "branch = Branch i pp []"
    by (cases branch) (simp add: isEmpty_def)
  from run idx have "setCell filoLengths treeIdx branchIdx (Val 0) = Inr filoLengths'"
    unfolding b by simp
  then show ?thesis by (rule setCell_getCell)
next
  case False
  have "finalFiloLength filoDist (fst (worldLengths branch)) (snd (worldLengths branch)) = 0"
    using boundary by (simp add: finalFiloLength_def Let_def)
  with calcFiloLengths_own_cell[OF run idx False axon basal nofilo]
  show ?thesis by simp
qed

theorem trailing_segment_at_threshold_contributes_zero_witness:
  "calcFiloLengths (exampleTree 30 3) 0 True True 10 (trunkBranch 30 3) [[NaN, NaN]]
     = Inr [[Val 0, Val 3]] \<and>
   indexInParent (exampleTree 30 3) (trunkBranch 30 3) = Inr 0 \<and>
   \<not> isEmpty (trunkBranch 30 3) \<and> \<not> isAxon (trunkBranch 30 3) \<and>
   \<not> isBasal (trunkBranch 30 3) \<and> \<not> fst (isFilo (trunkBranch 30 3) 10) \<and>
   fst (worldLengths (trunkBranch 30 3)) - snd (worldLengths (trunkBranch 30 3)) = 10 \<and>
   getCell [[Val 0, Val 3]] 0 0 = Inr (Val 0)"
proof -
  have run: "calcFiloLengths (exampleTree 30 3) 0 True True 10 (trunkBranch 30 3) [[NaN, NaN]]
     = Inr [[Val 0, Val 3]]"
    by (simp add: example_defs engine_defs matrix_defs lastPointWithLabelOpt_def
        finalFiloLength_def Let_def)
  have idx: "indexInParent (exampleTree 30 3) (trunkBranch 30 3) = Inr 0"
    by (simp add: example_defs engine_defs)
  have nonempty: "\<not> isEmpty (trunkBranch 30 3)"
    by (simp add: example_defs engine_defs)
  have axon: "\<not> (True \<and> isAxon (trunkBranch 30 3))"
    and basal: "\<not> (True \<and> isBasal (trunkBranch 30 3))"
    by (simp_all add: example_defs engine_defs)
  have nofilo: "\<not> fst (isFilo (trunkBranch 30 3) 10)"
    by (simp add: example_defs engine_defs Let_def)
  have boundary:
    "fst (worldLengths (trunkBranch 30 3)) - snd (worldLengths (trunkBranch 30 3)) = 10"
    by (simp add: example_defs engine_defs Let_def)
  from trailing_segment_at_threshold_contributes_zero[OF run idx axon basal nofilo boundary]
    run idx nonempty axon basal nofilo boundary
  show ?thesis by simp
qed

text \<open>
  Claim C9. In \<open>_calcFiloLengths\<close>, a branch that is not empty, not excluded and not a
  filopodium, and whose \<open>lengthToLastBranch\<close> is 0, gets the filopodium length 0 whatever
  its total length is.
\<close>

theorem no_branch_point_contributes_zero:
  assumes run: "calcFiloLengths t treeIdx excludeAxon excludeBasal filoDist branch filoLengths
                = Inr filoLengths'"
    and idx: "indexInParent t branch = Inr branchIdx"
    and nonempty: "\<not> isEmpty branch"
    and axon: "\<not> (excludeAxon \<and> isAxon branch)"
    and basal: "\<not> (excludeBasal \<and> isBasal branch)"
    and nofilo: "\<not> fst (isFilo branch filoDist)"
    and nobranch: "snd (worldLengths branch) = 0"
  shows "getCell filoLengths' treeIdx branchIdx = Inr (Val 0)"
proof -
  have "finalFiloLength filoDist (fst (worldLengths branch)) (snd (worldLengths branch)) = 0"
    using nobranch by (simp add: finalFiloLength_def Let_def)
  with calcFiloLengths_own_cell[OF run idx nonempty axon basal nofilo]
  show ?thesis by simp
qed

theorem no_branch_point_contributes_zero_witness:
  "calcFiloLengths (exampleTree 25 30) 0 True True 10 (sideBranch 30) [[NaN, NaN]]
     = Inr [[NaN, Val 0]] \<and>
   indexInParent (exampleTree 25 30) (sideBranch 30) = Inr 1 \<and>
   \<not> isEmpty (sideBranch 30) \<and> \<not> isAxon (sideBranch 30) \<and>
   \<not> isBasal (sideBranch 30) \<and> \<not> fst (isFilo (sideBranch 30) 10) \<and>
   fst (worldLengths (sideBranch 30)) = 30 \<and> snd (worldLengths (sideBranch 30)) = 0 \<and>
   getCell [[NaN, Val 0]] 0 1 = Inr (Val 0)"
proof -
  have run: "calcFiloLengths (exampleTree 25 30) 0 True True 10 (sideBranch 30) [[NaN, NaN]]
     = Inr [[NaN, Val 0]]"
    by (simp add: example_defs engine_defs matrix_defs lastPointWithLabelOpt_def
        finalFiloLength_def Let_def)
  have idx: "indexInParent (exampleTree 25 30) (sideBranch 30) = Inr 1"
    by (simp add: example_defs engine_defs)
  have nonempty: "\<not> isEmpty (sideBranch 30)"
    by (simp add: example_defs engine_defs)
  have axon: "\<not> (True \<and> isAxon (sideBranch 30))"
    and basal: "\<not> (True \<and> isBasal (sideBranch 30))"
    by (simp_all add: example_defs engine_defs)
  have nofilo: "\<not> fst (isFilo (sideBranch 30) 10)"
    by (simp add: example_defs engine_defs Let_def)
  have total: "fst (worldLengths (sideBranch 30)) = 30"
    and nobranch: "snd (worldLengths (sideBranch 30)) = 0"
    by (simp_all add: example_defs engine_defs Let_def)
  from no_branch_point_contributes_zero[OF run idx nonempty axon basal nofilo nobranch]
    run idx nonempty axon basal nofilo total nobranch
  show ?thesis by simp
qed

subsection \<open>The aggregates of \<open>motility\<close>\<close>

lemmas motility_defs = motility_def calcTree_def nFiloOf_def nansum_def isnan_def fsub_def
  lastPointWithLabelOpt_def finalFiloLength_def nFiloStrictSpec_def

lemma growth_classified:
  "addedSubtractedTransitioned 5 growthTrees True True 10 10 = Inr growthResult"
  by (simp add: addedSubtractedTransitioned_def growthTrees_def growthResult_def example_defs
      engine_defs matrix_defs classifier_defs upt_rec numeral_nat Let_def)

lemma growth_motility:
  "motility unitTDBL 5 growthTrees True True False 10 10 =
     Inr (growthMotility, [[Val 5, Val 3], [Val 7, Val 3]])"
  by (simp add: motility_defs addedSubtractedTransitioned_def growthTrees_def growthMotility_def
      example_defs engine_defs matrix_defs classifier_defs upt_rec numeral_nat Let_def)

lemma filo_role_rank:
  "(0 < rank x \<and> rank x < 5) =
   (x = TERMINAL \<or> x = INTERSTITIAL \<or> x = BRANCH_WITH_TERMINAL \<or> x = BRANCH_WITH_INTERSTITIAL)"
  by (cases x) simp_all

lemma count_both:
  "length (filter ((\<lambda>x. x) \<circ> (\<lambda>(x, y). x \<and> y)) (zip (map P xs) (map Q xs))) =
   length (filter (\<lambda>x. P x \<and> Q x) xs)"
  by (induction xs) simp_all

lemma nFiloOf_row:
  assumes "t < length ft"
  shows "nFiloOf ft ! t =
           length (filter (\<lambda>x. x = TERMINAL \<or> x = INTERSTITIAL \<or> x = BRANCH_WITH_TERMINAL \<or>
                                x = BRANCH_WITH_INTERSTITIAL) (ft ! t))"
proof -
  from assms have "nFiloOf ft ! t = length (filter (\<lambda>x. 0 < rank x \<and> rank x < 5) (ft ! t))"
    by (simp add: nFiloOf_def cellwise_def count_both)
  then show ?thesis by (simp add: filo_role_rank)
qed

lemma nFiloOf_length: "length (nFiloOf ft) = length ft"
  by (simp add: nFiloOf_def cellwise_def)

text \<open>
  Claim C3, as the code has it. The aggregate normalised by filopodium count for the
  transition from \<open>t\<close> is the sum of the raw motility of that transition (NaN cells left
  out) divided by the number of branches whose role at snapshot \<open>t\<close> lies strictly between
  ABSENT and BRANCH_ONLY: TERMINAL, INTERSTITIAL, BRANCH_WITH_TERMINAL and
  BRANCH_WITH_INTERSTITIAL all count.
\<close>

theorem filo_count_denominator:
  assumes m: "motility TDBL depth trees excludeAxon excludeBasal includeAS terminalDist filoDist
              = Inr (m, filoLengths)"
    and r: "addedSubtractedTransitioned depth trees excludeAxon excludeBasal terminalDist filoDist
            = Inr r"
    and t: "t < length (rawNFilo m)"
  shows "rawNFilo m ! t =
           fdiv (nansum (raw m ! t))
             (Val (real (length (filter
                (\<lambda>x. x = TERMINAL \<or> x = INTERSTITIAL \<or> x = BRANCH_WITH_TERMINAL \<or>
                     x = BRANCH_WITH_INTERSTITIAL) (filoTypesR r ! t)))))"
proof -
  from m r have nf: "rawNFilo m =
      map2 fdiv (map nansum (raw m)) (map (\<lambda>n. Val (real n)) (butlast (nFiloOf (filoTypesR r))))"
    by (auto simp: motility_def Let_def split: sum.splits if_splits)
  from t have t1: "t < length (raw m)" and t2: "t < length (butlast (nFiloOf (filoTypesR r)))"
    by (simp_all add: nf)
  from t2 have t3: "t < length (filoTypesR r)" by (simp add: nFiloOf_length)
  from t2 have "butlast (nFiloOf (filoTypesR r)) ! t = nFiloOf (filoTypesR r) ! t"
    by (simp add: nth_butlast)
  with t1 t2 show ?thesis
    by (simp add: nf nFiloOf_row[OF t3])
qed

theorem filo_count_denominator_witness:
  "motility unitTDBL 5 growthTrees True True False 10 10
     = Inr (growthMotility, [[Val 5, Val 3], [Val 7, Val 3]]) \<and>
   addedSubtractedTransitioned 5 growthTrees True True 10 10 = Inr growthResult \<and>
   0 < length (rawNFilo growthMotility) \<and>
   rawNFilo growthMotility ! 0 = fdiv (nansum (raw growthMotility ! 0)) (Val (real (2::nat)))"
proof -
  have t: "0 < length (rawNFilo growthMotility)" by (simp add: growthMotility_def)
  from filo_count_denominator[OF growth_motility growth_classified t]
    growth_motility growth_classified t
  show ?thesis by (simp add: growthResult_def)
qed

text \<open>
  Claim C3 as stated, with only TERMINAL and INTERSTITIAL in the denominator, fails: in
  the example the trunk is a branch with a terminal filopodium and is counted, so the
  aggregate is 2 / 2 and not 2 / 1.
\<close>

theorem filo_count_strict_counterexample:
  "motility unitTDBL 5 growthTrees True True False 10 10
     = Inr (growthMotility, [[Val 5, Val 3], [Val 7, Val 3]]) \<and>
   addedSubtractedTransitioned 5 growthTrees True True 10 10 = Inr growthResult \<and>
   rawNFilo growthMotility ! 0 = Val 1 \<and>
   fdiv (nansum (raw growthMotility ! 0))
      (Val (real (nFiloStrictSpec (filoTypesR growthResult ! 0)))) = Val 2 \<and>
   rawNFilo growthMotility ! 0 \<noteq>
     fdiv (nansum (raw growthMotility ! 0))
       (Val (real (nFiloStrictSpec (filoTypesR growthResult ! 0))))"
  using growth_motility growth_classified
  by (simp add: growthMotility_def growthResult_def nFiloStrictSpec_def nansum_def isnan_def)

subsection \<open>Where \<open>motility\<close> departs from the classification\<close>

text \<open>
  \<open>motility\<close> reads \<open>tree.rootPoint.children\<close> of every snapshot, so it returns a result
  only if every snapshot has a root point.
\<close>

lemma forEach_Inr_steps:
  "forEach f xs s = Inr s' \<Longrightarrow> x \<in> set xs \<Longrightarrow> \<exists>s1 s2. f x s1 = Inr s2"
proof (induction xs arbitrary: s)
  case Nil
  then show ?case by simp
next
  case (Cons y ys)
  then show ?case by (auto split: sum.splits)
qed

lemma motility_needs_root_points:
  assumes "motility TDBL depth trees excludeAxon excludeBasal includeAS terminalDist filoDist
           = Inr res"
    and "k < length trees"
  shows "rootPoint (trees ! k) \<noteq> None"
proof
  assume none: "rootPoint (trees ! k) = None"
  from assms(1) obtain fl where
    "forEach (calcTree trees excludeAxon excludeBasal filoDist) [0..<length trees]
       (replicate (length trees) (replicate (length (branches (last trees))) NaN)) = Inr fl"
    by (auto simp: motility_def Let_def split: sum.splits if_splits)
  from forEach_Inr_steps[OF this, of k] assms(2)
  obtain s1 s2 where "calcTree trees excludeAxon excludeBasal filoDist k s1 = Inr s2"
    by auto
  with none show False by (simp add: calcTree_def)
qed

text \<open>
  Claim C8. For a sequence that starts with an entirely empty snapshot,
  \<open>addedSubtractedTransitioned\<close> skips the empty tree and returns matrices in which it has
  its own row of ABSENT cells, but \<open>motility\<close> does not complete: it raises
  \<open>AttributeError\<close> at the missing root point.
\<close>

theorem empty_tree_breaks_motility:
  "addedSubtractedTransitioned 5 [emptyTree, exampleTree 25 3] True True 10 10 =
     Inr \<lparr>filoTypesR = [[ABSENT, ABSENT], [BRANCH_WITH_TERMINAL, TERMINAL]],
          addedR = [[False, True]], subtractedR = [[False, False]],
          transitionedR = [[False, False]], masterChangedR = [[True, False]],
          masterNodesR = [[[], []], [[1], []]]\<rparr> \<and>
   motility unitTDBL 5 [emptyTree, exampleTree 25 3] True True False 10 10
     = Inl AttributeError"
  by (simp add: motility_defs addedSubtractedTransitioned_def example_defs engine_defs
      matrix_defs classifier_defs upt_rec numeral_nat Let_def)

text \<open>
  Claim C2. The matrix of filopodium lengths has one column for every branch of the last
  snapshot, and \<open>_calcFiloLengths\<close> stores a value at the position of the branch in its own
  snapshot's branch list. With branches \<open>0000\<close> and \<open>0002\<close> in the first snapshot and
  \<open>0000\<close>, \<open>0001\<close>, \<open>0002\<close> in the second, the global index of \<open>0002\<close> is 2, but its
  length 3 in the first snapshot is stored in column 1, the column of \<open>0001\<close> in the
  masks; with the snapshots in the other order the matrix has two columns for three
  branch ids and the computation raises \<open>IndexError\<close>.
\<close>

theorem filoLengths_columns_are_snapshot_positions:
  "sortedBranchIDList [earlySnapshot, lateSnapshot] = [''0000'', ''0001'', ''0002''] \<and>
   listIndex (sortedBranchIDList [earlySnapshot, lateSnapshot]) ''0002'' = Inr 2 \<and>
   indexInParent earlySnapshot (stubBranch ''0002'' (0, 3, 0)) = Inr 1 \<and>
   motility unitTDBL 5 [earlySnapshot, lateSnapshot] True True False 10 10 =
     Inr (\<lparr>raw = [[Val 0, Val 1, NaN]], rawTDBL = [Val 1], rawFilo = [Val (1 / 3)],
           rawNFilo = [Val 1]\<rparr>,
          [[Val 0, Val 3, NaN], [Val 0, Val 4, Val 3]]) \<and>
   motility unitTDBL 5 [lateSnapshot, earlySnapshot] True True False 10 10 = Inl IndexError"
  by (simp add: motility_defs addedSubtractedTransitioned_def example_defs engine_defs
      matrix_defs classifier_defs upt_rec numeral_nat Let_def)

subsection \<open>The column count of \<open>motility\<close>\<close>

text \<open>
  The length matrix keeps its shape through \<open>_calcFiloLengths\<close>, and the masks of
  \<open>addedSubtractedTransitioned\<close> have one column for every branch id. So, whatever
  column \<open>indexInParent\<close> picks, with two snapshots or more \<open>motility\<close> returns a result
  only if the last snapshot has as many branches as there are branch ids in the whole
  sequence; otherwise the mask assignment of line 40 has mismatched shapes, if nothing
  failed before it.
\<close>

lemma setCell_shape: "setCell m i j v = Inr m' \<Longrightarrow> map length m' = map length m"
  by (auto simp: setCell_def map_update list_update_same_conv split: if_splits
      intro!: nth_equalityI simp: nth_list_update)

lemma calcFiloLengths_shape:
  "calcFiloLengths t treeIdx ea eb fd b fl = Inr fl' \<Longrightarrow> map length fl' = map length fl"
  "calcFiloPoints t treeIdx ea eb fd ps fl = Inr fl' \<Longrightarrow> map length fl' = map length fl"
  "calcFiloChildren t treeIdx ea eb fd bs fl = Inr fl' \<Longrightarrow> map length fl' = map length fl"
proof (induction t treeIdx ea eb fd b fl and t treeIdx ea eb fd ps fl and t treeIdx ea eb fd bs fl
    arbitrary: fl' and fl' and fl'
    rule: calcFiloLengths_calcFiloPoints_calcFiloChildren.induct)
  case (1 t treeIdx excludeAxon excludeBasal filoDist i pp ps filoLengths)
  from "1.prems" show ?case
    by (auto simp del: list.size length_map split: sum.splits if_splits
        dest!: setCell_shape "1.IH")
next
  case (2 t treeIdx excludeAxon excludeBasal filoDist filoLengths)
  then show ?case by simp
next
  case (3 t treeIdx excludeAxon excludeBasal filoDist p ps filoLengths)
  from "3.prems" obtain fl1 where
    a: "calcFiloChildren t treeIdx excludeAxon excludeBasal filoDist (children p) filoLengths
        = Inr fl1"
    and b: "calcFiloPoints t treeIdx excludeAxon excludeBasal filoDist ps fl1 = Inr fl'"
    by (auto split: sum.splits)
  from "3.IH"(1)[OF a] "3.IH"(2)[OF a b] show ?case by simp
next
  case (4 t treeIdx excludeAxon excludeBasal filoDist filoLengths)
  then show ?case by simp
next
  case (5 t treeIdx excludeAxon excludeBasal filoDist b bs filoLengths)
  from "5.prems" obtain fl1 where
    a: "calcFiloLengths t treeIdx excludeAxon excludeBasal filoDist b filoLengths = Inr fl1"
    and b: "calcFiloChildren t treeIdx excludeAxon excludeBasal filoDist bs fl1 = Inr fl'"
    by (auto split: sum.splits)
  from "5.IH"(1)[OF a] "5.IH"(2)[OF a b] show ?case by simp
qed

lemma forEach_invariant:
  assumes step: "\<And>x s s'. f x s = Inr s' \<Longrightarrow> P s \<Longrightarrow> P s'"
  shows "forEach f xs s = Inr s' \<Longrightarrow> P s \<Longrightarrow> P s'"
proof (induction xs arbitrary: s)
  case Nil
  then show ?case by simp
next
  case (Cons x xs)
  from Cons.prems(1) obtain s1 where a: "f x s = Inr s1" and b: "forEach f xs s1 = Inr s'"
    by (auto split: sum.splits)
  from Cons.IH[OF b step[OF a Cons.prems(2)]] show ?case .
qed

lemma mapE_length: "mapE f xs = Inr ys \<Longrightarrow> length ys = length xs"
  by (induction xs arbitrary: ys) (auto split: sum.splits)

lemma mapE_nth: "mapE f xs = Inr ys \<Longrightarrow> i < length xs \<Longrightarrow> f (xs ! i) = Inr (ys ! i)"
proof (induction xs arbitrary: ys i)
  case Nil
  then show ?case by simp
next
  case (Cons x xs)
  then show ?case by (cases i) (auto split: sum.splits)
qed

lemma fillMasterChanged_shape:
  assumes "fillMasterChanged masterChanged mNodes = Inr res"
  shows "map length res = map length masterChanged"
proof (rule nth_equalityI)
  from mapE_length[OF assms[unfolded fillMasterChanged_def]]
  show len: "length (map length res) = length (map length masterChanged)" by simp
  fix i assume "i < length (map length res)"
  with len have i: "i < length masterChanged" by simp
  from mapE_nth[OF assms[unfolded fillMasterChanged_def], of i] i
  have "mapE (\<lambda>b. masterChangedCell mNodes i b) [0..<length (masterChanged ! i)] = Inr (res ! i)"
    by simp
  from mapE_length[OF this] i len show "map length res ! i = map length masterChanged ! i"
    by simp
qed

lemma motility_needs_matching_columns:
  assumes run: "motility TDBL depth trees excludeAxon excludeBasal includeAS terminalDist filoDist
                = Inr res"
    and two: "2 \<le> length trees"
  shows "length (branches (last trees)) = length (sortedBranchIDList trees)"
proof -
  let ?n = "length trees" and ?nB = "length (branches (last trees))"
    and ?nU = "length (sortedBranchIDList trees)"
  from run obtain r fl where
    r: "addedSubtractedTransitioned depth trees excludeAxon excludeBasal terminalDist filoDist
        = Inr r"
    and fl: "forEach (calcTree trees excludeAxon excludeBasal filoDist) [0..<?n]
               (replicate ?n (replicate ?nB NaN)) = Inr fl"
    and sh: "sameShape (cellwise fsub (tl fl) (butlast fl)) (masterChangedR r)"
    by (auto simp: motility_def maskedFill_def Let_def split: sum.splits if_splits)
  have "map length fl = map length (replicate ?n (replicate ?nB (NaN::fval)))"
    by (rule forEach_invariant[where P = "\<lambda>m. map length m = map length (replicate ?n (replicate ?nB (NaN::fval)))",
          OF _ fl])
       (auto simp: calcTree_def split: option.splits dest: calcFiloLengths_shape(3))
  then have flsh: "map length fl = replicate ?n ?nB" by simp
  then have fllen: "length fl = ?n" by (metis length_map length_replicate)
  have rows: "length (fl ! i) = ?nB" if "i < ?n" for i
    using flsh that by (metis fllen nth_map nth_replicate)
  from r obtain mn where
    "fillMasterChanged (replicate (?n - 1) (replicate ?nU False)) mn = Inr (masterChangedR r)"
    by (auto simp: addedSubtractedTransitioned_def Let_def split: sum.splits if_splits)
  from fillMasterChanged_shape[OF this]
  have mc: "map length (masterChangedR r) = replicate (?n - 1) ?nU" by simp
  from two fllen have "0 < length (cellwise fsub (tl fl) (butlast fl))"
    by (simp add: cellwise_def)
  moreover have "length (fl ! 0) = ?nB" "length (fl ! 1) = ?nB"
  proof -
    from two have "0 < ?n" by (cases trees) simp_all
    then show "length (fl ! 0) = ?nB" by (rule rows)
    from two have "1 < ?n" by simp
    then show "length (fl ! 1) = ?nB" by (rule rows)
  qed
  with two fllen have "length (cellwise fsub (tl fl) (butlast fl) ! 0) = ?nB"
    by (simp add: cellwise_def nth_tl nth_butlast)
  moreover from mc two have "length (masterChangedR r ! 0) = ?nU"
    by (metis One_nat_def Suc_1 Suc_le_lessD length_map length_replicate nth_map nth_replicate
        zero_less_diff)
  ultimately show ?thesis
    using sameShape_index(2)[OF sh, of 0] sameShape_index(1)[OF sh] by simp
qed

end
